theory Spec2Isabelle
  imports Main "HOL-Library.Word"
begin

section \<open>Go values shared by the packages\<close>

text \<open>
  A Go \<^verbatim>\<open>error\<close> is a value carrying a message; the nil error is \<open>None\<close> of
  \<open>error option\<close>. A run-time panic (an index out of range, an explicit
  \<^verbatim>\<open>panic(...)\<close>) ends the call without a result, so a function that can
  panic returns \<open>panic + 'a\<close> with \<open>Inl\<close> for the panic.
  Go's \<^verbatim>\<open>int\<close> is modelled as \<open>int\<close> for identifiers, indices and lengths,
  where the code does no arithmetic that can overflow; the node count of a deployment,
  which the code adds up, is a 64-bit word.
\<close>

datatype error = Error string

datatype panic = Panic string

section \<open>Package db: nodes (db/node.go)\<close>

text \<open>
  \<^verbatim>\<open>type Node struct\<close>. The fields \<open>Id_node\<close> .. \<open>Ip\<close> are those of db/node.go
  (\<^verbatim>\<open>Id\<close> is renamed, the name being taken in HOL); \<open>AbsoluteNum\<close> and \<open>Label\<close>
  are the two further fields testnet/testnet.go reads and writes.
\<close>

record Node =
  Id_node :: int
  TestNetId :: int
  Server :: int
  LocalId :: int
  Ip :: string
  AbsoluteNum :: int
  Label :: string

text \<open>
  \<^verbatim>\<open>InsertNode\<close> talks to the database. What the database answers is an input of
  the model: for each of the four calls that can fail, the error it returns (or none),
  and the row id \<^verbatim>\<open>res.LastInsertId()\<close> reports. The calls made are recorded in
  order, the deferred \<^verbatim>\<open>stmt.Close()\<close> and \<^verbatim>\<open>db.Close()\<close> last.
\<close>

record db_answers =
  Begin_err :: "error option"
  Prepare_err :: "error option"
  Exec_err :: "error option"
  LastInsertId :: "int \<times> error option"

datatype db_call =
    GetDB
  | TxBegin
  | TxPrepare
  | StmtExec int int int string
  | TxCommit
  | ResLastInsertId
  | StmtClose
  | DbClose

definition InsertNode :: "db_answers \<Rightarrow> Node \<Rightarrow> (int \<times> error option) \<times> db_call list" where
  "InsertNode db node =
     (case Begin_err db of
        Some err \<Rightarrow> ((- 1, Some err), [GetDB, TxBegin, DbClose])
      | None \<Rightarrow>
     (case Prepare_err db of
        Some err \<Rightarrow> ((- 1, Some err), [GetDB, TxBegin, TxPrepare, DbClose])
      | None \<Rightarrow>
     (case Exec_err db of
        Some err \<Rightarrow>
          ((- 1, None),
           [GetDB, TxBegin, TxPrepare,
            StmtExec (TestNetId node) (Server node) (LocalId node) (Ip node),
            StmtClose, DbClose])
      | None \<Rightarrow>
          (LastInsertId db,
           [GetDB, TxBegin, TxPrepare,
            StmtExec (TestNetId node) (Server node) (LocalId node) (Ip node),
            TxCommit, ResLastInsertId, StmtClose, DbClose]))))"

section \<open>Go slices over an explicit store\<close>

text \<open>
  A Go slice is a header: a pointer to a backing array, a length and a capacity. Two
  headers can share one array, and a write through one is seen through the other;
  \<^verbatim>\<open>append\<close> writes into the shared array whenever the capacity allows. The
  claims about the start phase of a build and about \<^verbatim>\<open>AddDetails\<close> depend
  on exactly that, so the arrays live in an explicit store: \<open>cells A a\<close> is the
  content of the array at address \<open>a\<close> (all of its slots, also those beyond the length
  of a slice that points to it), and \<open>limit A\<close> is the next unused address.
  \<open>Slice a off n c\<close> is the header with array \<open>a\<close>, first slot \<open>off\<close>, length
  \<open>n\<close> and capacity \<open>c\<close>; \<open>NilSlice\<close> is the nil slice.
\<close>

type_synonym addr = nat

datatype slice = NilSlice | Slice addr nat nat nat

record 'a arrays =
  cells :: "addr \<Rightarrow> 'a list"
  limit :: addr

fun len :: "slice \<Rightarrow> nat" where
  "len NilSlice = 0"
| "len (Slice a off n c) = n"

fun cap :: "slice \<Rightarrow> nat" where
  "cap NilSlice = 0"
| "cap (Slice a off n c) = c"

text \<open>The elements \<^verbatim>\<open>s[0], ..., s[len(s)-1]\<close> as the store has them now.\<close>

fun elems :: "'a arrays \<Rightarrow> slice \<Rightarrow> 'a list" where
  "elems A NilSlice = []"
| "elems A (Slice a off n c) = take n (drop off (cells A a))"

definition alloc :: "'a arrays \<Rightarrow> 'a list \<Rightarrow> 'a arrays \<times> addr" where
  "alloc A xs = (A\<lparr>cells := (cells A)(limit A := xs), limit := Suc (limit A)\<rparr>, limit A)"

text \<open>\<^verbatim>\<open>make([]T, n)\<close>: a fresh array of \<open>n\<close> zero values \<open>z\<close>; a negative \<open>n\<close> panics.\<close>

definition make_slice :: "'a \<Rightarrow> 'a arrays \<Rightarrow> int \<Rightarrow> panic + ('a arrays \<times> slice)" where
  "make_slice z A n =
     (if n < 0 then Inl (Panic ''makeslice: len out of range'')
      else (case alloc A (replicate (nat n) z) of
              (A1, a) \<Rightarrow> Inr (A1, Slice a 0 (nat n) (nat n))))"

text \<open>\<^verbatim>\<open>s[i]\<close> read and written; reading outside \<^verbatim>\<open>0 <= i < len(s)\<close> panics.\<close>

definition index :: "'a arrays \<Rightarrow> slice \<Rightarrow> int \<Rightarrow> panic + 'a" where
  "index A s i =
     (if i < 0 \<or> int (len s) \<le> i then Inl (Panic ''index out of range'')
      else Inr (elems A s ! nat i))"

fun put :: "'a arrays \<Rightarrow> slice \<Rightarrow> nat \<Rightarrow> 'a \<Rightarrow> 'a arrays" where
  "put A NilSlice i x = A"
| "put A (Slice a off n c) i x = A\<lparr>cells := (cells A)(a := (cells A a)[off + i := x])\<rparr>"

text \<open>The slot \<open>i\<close> of the backing array as seen from the slice (\<open>i\<close> below the capacity).\<close>

fun slot :: "'a arrays \<Rightarrow> slice \<Rightarrow> nat \<Rightarrow> 'a \<Rightarrow> 'a" where
  "slot A NilSlice i z = z"
| "slot A (Slice a off n c) i z = cells A a ! (off + i)"

fun set_len :: "slice \<Rightarrow> nat \<Rightarrow> slice" where
  "set_len NilSlice k = NilSlice"
| "set_len (Slice a off n c) k = Slice a off k c"

text \<open>
  \<^verbatim>\<open>s[:hi]\<close> and \<^verbatim>\<open>s[lo:]\<close>. The upper bound of a slice expression may go up to
  the capacity; the lower bound may not exceed the upper one, which is \<^verbatim>\<open>len(s)\<close>
  when it is left out.
\<close>

definition slice_to :: "slice \<Rightarrow> int \<Rightarrow> panic + slice" where
  "slice_to s hi =
     (if hi < 0 \<or> int (cap s) < hi then Inl (Panic ''slice bounds out of range'')
      else (case s of
              NilSlice \<Rightarrow> Inr NilSlice
            | Slice a off n c \<Rightarrow> Inr (Slice a off (nat hi) c)))"

definition slice_from :: "slice \<Rightarrow> int \<Rightarrow> panic + slice" where
  "slice_from s lo =
     (if lo < 0 \<or> int (len s) < lo then Inl (Panic ''slice bounds out of range'')
      else (case s of
              NilSlice \<Rightarrow> Inr NilSlice
            | Slice a off n c \<Rightarrow> Inr (Slice a (off + nat lo) (n - nat lo) (c - nat lo))))"

text \<open>
  \<^verbatim>\<open>append(s, xs...)\<close>, the values \<open>xs\<close> having been read already. With nothing to
  add the result is \<open>s\<close>. When the capacity is enough the values are written into the
  backing array of \<open>s\<close>, behind its length, and the result shares that array. Otherwise
  a new array is allocated; its capacity is the runtime's choice (\<open>grow\<close>, given the
  old capacity and the length needed), never less than the length needed.
\<close>

definition append_go ::
    "(nat \<Rightarrow> nat \<Rightarrow> nat) \<Rightarrow> 'a \<Rightarrow> 'a arrays \<Rightarrow> slice \<Rightarrow> 'a list \<Rightarrow> 'a arrays \<times> slice" where
  "append_go grow z A s xs =
     (if xs = [] then (A, s)
      else if len s + length xs \<le> cap s then
        (case s of
           NilSlice \<Rightarrow> (A, s)
         | Slice a off n c \<Rightarrow>
             (A\<lparr>cells := (cells A)(a :=
                  take (off + n) (cells A a) @ xs @ drop (off + n + length xs) (cells A a))\<rparr>,
              Slice a off (n + length xs) c))
      else
        (let need = len s + length xs;
             newcap = max need (grow (cap s) need)
         in (case alloc A (elems A s @ xs @ replicate (newcap - need) z) of
               (A1, a1) \<Rightarrow> (A1, Slice a1 0 need newcap))))"

text \<open>
  \<^verbatim>\<open>for _, x := range src { dst = append(dst, x) }\<close>: the range expression is
  evaluated once, each element is read when its turn comes.
\<close>

function range_append ::
    "(nat \<Rightarrow> nat \<Rightarrow> nat) \<Rightarrow> 'a \<Rightarrow> nat \<Rightarrow> slice \<Rightarrow> 'a arrays \<Rightarrow> slice \<Rightarrow> 'a arrays \<times> slice" where
  "range_append grow z i src A dst =
     (if i < len src then
        (case append_go grow z A dst [elems A src ! i] of
           (A1, dst1) \<Rightarrow> range_append grow z (Suc i) src A1 dst1)
      else (A, dst))"
  by pat_completeness auto
termination
  by (relation "measure (\<lambda>(grow, z, i, src, A, dst). len src - i)") auto

section \<open>Package strings of the Go library, as far as the code uses it\<close>

text \<open>
  \<^verbatim>\<open>strings.Count(s, substr)\<close> for a non-empty \<open>substr\<close>: the number of
  non-overlapping occurrences, found from left to right. (Both calls in the code pass
  a literal that is not empty; the function is left unspecified on the empty one.)
\<close>

fun strings_Count :: "string \<Rightarrow> string \<Rightarrow> nat" where
  "strings_Count s (c # cs) =
     (if length s < Suc (length cs) then 0
      else if take (Suc (length cs)) s = c # cs
        then Suc (strings_Count (drop (Suc (length cs)) s) (c # cs))
        else strings_Count (tl s) (c # cs))"

fun strings_Join :: "string list \<Rightarrow> string \<Rightarrow> string" where
  "strings_Join [] sep = []"
| "strings_Join [x] sep = x"
| "strings_Join (x # y # zs) sep = x @ sep @ strings_Join (y # zs) sep"

text \<open>\<^verbatim>\<open>%d\<close> of \<^verbatim>\<open>fmt.Sprintf\<close>: an integer in decimal.\<close>

function decimal :: "nat \<Rightarrow> string" where
  "decimal n =
     (if n < 10 then [char_of (48 + n)]
      else decimal (n div 10) @ [char_of (48 + n mod 10)])"
  by pat_completeness auto
termination
  by (relation "measure (\<lambda>n. n)") auto

definition Sprintf_d :: "int \<Rightarrow> string" where
  "Sprintf_d i = (if i < 0 then ''-'' @ decimal (nat (- i)) else decimal (nat i))"

section \<open>Package helpers: the fan-out of CreateConfigs (blockchains/helpers/copy.go)\<close>

text \<open>
  \<^verbatim>\<open>type Server struct\<close> of package db is declared outside the files under
  study; the code uses its \<^verbatim>\<open>ID\<close> and its \<^verbatim>\<open>Ips\<close>, the addresses of the
  nodes the server hosts.
\<close>

record Server =
  ID :: int
  Ips :: "string list"

text \<open>
  \<^verbatim>\<open>CreateConfigs\<close> starts one goroutine for every server index \<open>i\<close> and every
  index \<open>j\<close> of that server's \<^verbatim>\<open>Ips\<close>, and hands it \<open>(i, j, node)\<close> by value,
  \<open>node\<close> being a counter that starts at 0 and is incremented after each
  \<^verbatim>\<open>go\<close> statement. The first statement of every goroutine is the call
  \<^verbatim>\<open>fn(i, j, node)\<close>, under no condition, and \<^verbatim>\<open>fn\<close> is called nowhere else.
  The goroutines run concurrently, so the calls of \<^verbatim>\<open>fn\<close> happen in no fixed
  order; the model gives them in the order in which the goroutines are started.
  The inner loop returns the calls it started and the counter it leaves behind.
\<close>

fun range_Ips :: "nat \<Rightarrow> string list \<Rightarrow> nat \<Rightarrow> nat \<Rightarrow> (nat \<times> nat \<times> nat) list \<times> nat" where
  "range_Ips i [] j node = ([], node)"
| "range_Ips i (ip # ips) j node =
     (case range_Ips i ips (Suc j) (Suc node) of
        (calls, node1) \<Rightarrow> ((i, j, node) # calls, node1))"

fun range_servers :: "Server list \<Rightarrow> nat \<Rightarrow> nat \<Rightarrow> (nat \<times> nat \<times> nat) list \<times> nat" where
  "range_servers [] i node = ([], node)"
| "range_servers (server # servers) i node =
     (case range_Ips i (Ips server) 0 node of
        (calls1, node1) \<Rightarrow>
          (case range_servers servers (Suc i) node1 of
             (calls2, node2) \<Rightarrow> (calls1 @ calls2, node2)))"

definition CreateConfigs_fn_calls :: "Server list \<Rightarrow> (nat \<times> nat \<times> nat) list" where
  "CreateConfigs_fn_calls servers = fst (range_servers servers 0 0)"

section \<open>Package tendermint: the start phase of Build (blockchains/tendermint/tendermint.go)\<close>

text \<open>
  The closure of the start fan-out, for the node with absolute number \<open>i\<close>: it
  evaluates \<^verbatim>\<open>append(peers[:i], peers[i+1:]...)\<close> on the slice \<^verbatim>\<open>peers\<close> that
  all the closures share, joins the result with commas and passes the command line
  to \<^verbatim>\<open>DockerExecdLog\<close>. \<open>persistent_peers\<close> is the list joined, together with
  the store the \<^verbatim>\<open>append\<close> leaves behind.
\<close>

definition persistent_peers ::
    "(nat \<Rightarrow> nat \<Rightarrow> nat) \<Rightarrow> string arrays \<Rightarrow> slice \<Rightarrow> int \<Rightarrow> panic + (string arrays \<times> string list)" where
  "persistent_peers grow A peers i =
     (case slice_to peers i of
        Inl p \<Rightarrow> Inl p
      | Inr front \<Rightarrow>
     (case slice_from peers (i + 1) of
        Inl p \<Rightarrow> Inl p
      | Inr back \<Rightarrow>
     (case append_go grow [] A front (elems A back) of
        (A1, joined) \<Rightarrow> Inr (A1, elems A1 joined))))"

definition start_command :: "string list \<Rightarrow> string" where
  "start_command ps =
     ''tendermint node --proxy_app=kvstore --p2p.persistent_peers='' @ strings_Join ps '',''"

text \<open>
  \<^verbatim>\<open>helpers.AllNodeExecCon\<close> is not among the files under study. It calls the
  closure once for every node, concurrently; the order in which the closures run is
  therefore a parameter, the list \<open>order\<close> of absolute node numbers. The result
  is, for each node in that order, the peers its command line got.
\<close>

fun start_fan_out ::
    "(nat \<Rightarrow> nat \<Rightarrow> nat) \<Rightarrow> string arrays \<Rightarrow> slice \<Rightarrow> int list \<Rightarrow> panic + (int \<times> string list) list" where
  "start_fan_out grow A peers [] = Inr []"
| "start_fan_out grow A peers (i # order) =
     (case persistent_peers grow A peers i of
        Inl p \<Rightarrow> Inl p
      | Inr (A1, ps) \<Rightarrow>
          (case start_fan_out grow A1 peers order of
             Inl p \<Rightarrow> Inl p
           | Inr rest \<Rightarrow> Inr ((i, ps) # rest)))"

section \<open>Package ssh: the client (ssh/client.go)\<close>

text \<open>
  The configuration \<^verbatim>\<open>conf\<close> (package util), the client, and what the world
  outside the function answers: the result of \<^verbatim>\<open>getSession\<close> (a session, or
  nil and an error), the answers \<^verbatim>\<open>Stop()\<close> and \<^verbatim>\<open>GetError()\<close> of the build
  state registered for the client's server (package state), the output and error of
  the remote command, and \<^verbatim>\<open>util.FormatError\<close>. What a function does to the
  outside is recorded as a list of events, in order. (\<open>Node_c\<close> is the field
  \<^verbatim>\<open>Node\<close> of \<^verbatim>\<open>util.Command\<close>.) \<^verbatim>\<open>getSession\<close> dials again
  for as long as the dial fails with a reset connection or an end of file; the model
  starts where it has returned.
\<close>

record Config =
  Verbose :: bool
  NodePrefix :: string
  DockerOutputFile :: string

record Client =
  host :: string
  serverID :: int

record BuildState =
  Stop :: bool
  GetError :: "error option"

type_synonym session = nat

record Command =
  Cmdline :: string
  ServerID :: int
  Node_c :: int

text \<open>
  \<^verbatim>\<open>type Session\<close> and its method \<^verbatim>\<open>Close\<close> are declared outside the files
  under study. When \<^verbatim>\<open>getSession\<close> fails it returns a nil session, and
  \<^verbatim>\<open>Run\<close> reaches \<^verbatim>\<open>defer session.Close()\<close> before it looks at the error.
  What \<^verbatim>\<open>Close\<close> does on a nil session is therefore a parameter: it returns
  (a method with a pointer receiver that guards against nil), it panics when the
  \<^verbatim>\<open>defer\<close> statement is executed (a method with a value receiver: the receiver
  is read there), or it panics when the deferred call runs, at the end of
  \<^verbatim>\<open>Run\<close> (a pointer receiver that is dereferenced).
\<close>

datatype nil_close = Close_returns | Close_panics_at_defer | Close_panics_at_call

record ssh_world =
  getSession :: "error + session"
  Close_on_nil :: nil_close
  GetBuildStateByServerID :: "int \<Rightarrow> BuildState"
  CombinedOutput :: "string \<Rightarrow> string \<times> error option"
  FormatError :: "string \<Rightarrow> error \<Rightarrow> error"

datatype ssh_event =
    OpenSession
  | Printed string
  | Logged error
  | RemoteCommand session string
  | SessionClose "session option"
  | BuildStateSet int string Command

definition nil_dereference :: panic where
  "nil_dereference = Panic ''invalid memory address or nil pointer dereference''"

text \<open>
  The end of \<^verbatim>\<open>Run\<close>: the deferred \<^verbatim>\<open>session.Close()\<close> runs after the result
  is set, and the result is returned unless the call panics.
\<close>

definition deferred_Close ::
    "ssh_world \<Rightarrow> string \<times> error option \<Rightarrow> ssh_event list \<Rightarrow>
     (panic + string \<times> error option) \<times> ssh_event list" where
  "deferred_Close world result events =
     (case getSession world of
        Inr s \<Rightarrow> (Inr result, events @ [SessionClose (Some s)])
      | Inl err \<Rightarrow>
          (if Close_on_nil world = Close_panics_at_call
           then (Inl nil_dereference, events @ [SessionClose None])
           else (Inr result, events @ [SessionClose None])))"

text \<open>
  \<^verbatim>\<open>Run\<close>: the outcome (the panic, or the output and the error returned) and the
  events. The session is asked for first; then come the \<^verbatim>\<open>defer\<close> statement,
  the check of \<^verbatim>\<open>Stop()\<close>, the check of the error of \<^verbatim>\<open>getSession\<close>, and
  the remote command.
\<close>

definition Run ::
    "Config \<Rightarrow> ssh_world \<Rightarrow> Client \<Rightarrow> string \<Rightarrow>
     (panic + string \<times> error option) \<times> ssh_event list" where
  "Run conf world sshClient command =
     (let opened = [OpenSession] @
            (if Verbose conf then [Printed (''Running command: '' @ command @ [CHR 0x0A])] else []);
          bs = GetBuildStateByServerID world (serverID sshClient)
      in if (case getSession world of Inl err \<Rightarrow> True | Inr s \<Rightarrow> False)
            \<and> Close_on_nil world = Close_panics_at_defer
         then (Inl nil_dereference, opened)
         else if Stop bs then deferred_Close world ([], GetError bs) opened
         else (case getSession world of
                 Inl err \<Rightarrow> deferred_Close world ([], Some err) (opened @ [Logged err])
               | Inr s \<Rightarrow>
                   (case CombinedOutput world command of
                      (out, res) \<Rightarrow>
                        deferred_Close world
                          (out, (case res of
                                   None \<Rightarrow> None
                                 | Some err \<Rightarrow> Some (FormatError world out err)))
                          (opened @ [RemoteCommand s command] @
                           (if Verbose conf then [Printed (out @ [CHR 0x0A])] else [])))))"

text \<open>
  \<^verbatim>\<open>logSanitizeAndStore\<close> compares the number of \<^verbatim>\<open>'\<close> with the number of
  \<^verbatim>\<open>\'\<close> in the command and panics when they differ; otherwise it stores the
  command in the build state under the node's number.
\<close>

definition logSanitizeAndStore :: "ssh_world \<Rightarrow> Client \<Rightarrow> int \<Rightarrow> string \<Rightarrow> panic option \<times> ssh_event list" where
  "logSanitizeAndStore world sshClient node command =
     (if strings_Count command [CHR 0x27] \<noteq> strings_Count command [CHR 0x5C, CHR 0x27]
      then (Some (Panic ''DockerExecdLog commands cannot contain unescaped ' characters''), [])
      else (None,
            [BuildStateSet (serverID sshClient) (Sprintf_d node)
               \<lparr>Cmdline = command, ServerID = serverID sshClient, Node_c = node\<rparr>]))"

text \<open>
  \<^verbatim>\<open>DockerExecdLog\<close>: the outcome (the panic, or the error returned) and the
  events up to it.
\<close>

definition DockerExecdLog ::
    "Config \<Rightarrow> ssh_world \<Rightarrow> Client \<Rightarrow> int \<Rightarrow> string \<Rightarrow> (panic + error option) \<times> ssh_event list" where
  "DockerExecdLog conf world sshClient node command =
     (case logSanitizeAndStore world sshClient node command of
        (Some p, stored) \<Rightarrow> (Inl p, stored)
      | (None, stored) \<Rightarrow>
          (case Run conf world sshClient
                  (''docker exec -d '' @ NodePrefix conf @ Sprintf_d node @ '' bash -c ''
                   @ [CHR 0x27] @ command @ '' 2>&1 > '' @ DockerOutputFile conf @ [CHR 0x27]) of
             (Inl p, events) \<Rightarrow> (Inl p, stored @ events)
           | (Inr (out, err), events) \<Rightarrow> (Inr err, stored @ events)))"

section \<open>Package rest: the handlers of the network emulation\<close>

text \<open>
  The response a handler has built so far: the status code once the header is
  written, and the body. \<^verbatim>\<open>w.Write\<close> writes the header with status 200 if none was
  written before and appends to the body; \<^verbatim>\<open>WriteHeader\<close> has no effect once a
  header is written; \<^verbatim>\<open>http.Error(w, msg, code)\<close> writes the header with the code
  and then the message and a newline (package net/http of the Go library).
\<close>

record ResponseWriter =
  status :: "nat option"
  body :: string

definition new_response :: ResponseWriter where
  "new_response = \<lparr>status = None, body = []\<rparr>"

definition WriteHeader :: "nat \<Rightarrow> ResponseWriter \<Rightarrow> ResponseWriter" where
  "WriteHeader code w = (if status w = None then w\<lparr>status := Some code\<rparr> else w)"

definition Write_body :: "string \<Rightarrow> ResponseWriter \<Rightarrow> ResponseWriter" where
  "Write_body b w = (let w1 = WriteHeader 200 w in w1\<lparr>body := body w1 @ b\<rparr>)"

definition http_Error :: "ResponseWriter \<Rightarrow> string \<Rightarrow> nat \<Rightarrow> ResponseWriter" where
  "http_Error w msg code = Write_body (msg @ [CHR 0x0A]) (WriteHeader code w)"

fun Error_msg :: "error \<Rightarrow> string" where
  "Error_msg (Error msg) = msg"

text \<open>
  The handlers, each on a fresh response. What the request decoder, the database
  and the netem backend answer is given: \<open>decoded\<close> is the result of
  \<^verbatim>\<open>decoder.Decode\<close>, \<open>nodes\<close> that of \<^verbatim>\<open>db.GetAllNodesByTestNet\<close>,
  \<open>applied\<close> the error of \<^verbatim>\<open>netem.ApplyAll\<close> or \<^verbatim>\<open>netem.ApplyToAll\<close>.
\<close>

definition handleNet ::
    "(error + 'conf list) \<Rightarrow> (error + Node list) \<Rightarrow> error option \<Rightarrow> ResponseWriter" where
  "handleNet decoded nodes applied =
     (let w = new_response in
      case decoded of
        Inl err \<Rightarrow> http_Error w (Error_msg err) 400
      | Inr netConf \<Rightarrow>
     (case nodes of
        Inl err \<Rightarrow> http_Error w (Error_msg err) 500
      | Inr ns \<Rightarrow>
     (case applied of
        Some err \<Rightarrow> http_Error w (Error_msg err) 500
      | None \<Rightarrow> Write_body ''Success'' w)))"

definition handleNetAll ::
    "(error + 'conf) \<Rightarrow> (error + Node list) \<Rightarrow> error option \<Rightarrow> ResponseWriter" where
  "handleNetAll decoded nodes applied =
     (let w = new_response in
      case decoded of
        Inl err \<Rightarrow> http_Error w (Error_msg err) 400
      | Inr netConf \<Rightarrow>
     (case nodes of
        Inl err \<Rightarrow> http_Error w (Error_msg err) 500
      | Inr ns \<Rightarrow>
     (case applied of
        Some err \<Rightarrow> Write_body ''Success'' (http_Error w (Error_msg err) 500)
      | None \<Rightarrow> Write_body ''Success'' w)))"


section \<open>Package testnet: the TestNet aggregate (testnet/testnet.go)\<close>

subsection \<open>Deployment details and the store they point into\<close>

text \<open>
  \<^verbatim>\<open>type DeploymentDetails struct\<close> of package db is declared outside the files
  under study. The model has the three fields \<^verbatim>\<open>AddDetails\<close> names: the node
  count \<^verbatim>\<open>Nodes\<close> (here \<open>Nodes_dd\<close>, a 64-bit integer that wraps on overflow),
  \<^verbatim>\<open>Images\<close> of type \<^verbatim>\<open>[]string\<close> and \<^verbatim>\<open>Files\<close> of type
  \<^verbatim>\<open>[]map[string]string\<close>. A struct value holds the two slices as headers, so a
  copy of the struct shares their arrays; a map is a reference to a map object, or nil.
  The store has the arrays of strings, the arrays of map references and the map
  objects.
\<close>

record DeploymentDetails =
  Nodes_dd :: "64 word"
  Images :: slice
  Files :: slice

record store =
  strings_of :: "string arrays"
  maprefs_of :: "addr option arrays"
  mapobj :: "addr \<Rightarrow> (string \<rightharpoonup> string)"
  map_limit :: addr

definition new_map :: "store \<Rightarrow> (string \<rightharpoonup> string) \<Rightarrow> store \<times> addr" where
  "new_map st m = (st\<lparr>mapobj := (mapobj st)(map_limit st := m), map_limit := Suc (map_limit st)\<rparr>,
                   map_limit st)"

text \<open>What a slice of images or of files holds, read through the store.\<close>

definition images_of :: "store \<Rightarrow> slice \<Rightarrow> string list" where
  "images_of st s = elems (strings_of st) s"

definition files_of :: "store \<Rightarrow> slice \<Rightarrow> (string \<rightharpoonup> string) option list" where
  "files_of st s = map (map_option (mapobj st)) (elems (maprefs_of st) s)"

subsection \<open>The JSON round trip of AddDetails (package encoding/json of the Go library)\<close>

text \<open>
  \<^verbatim>\<open>json.Marshal(dd)\<close> writes the values \<open>dd\<close> has at that moment. A slice field
  is written as \<^verbatim>\<open>null\<close> when the slice is nil and as an array otherwise, and is
  left out when it is empty and the field's tag says \<^verbatim>\<open>omitempty\<close>. The tags
  belong to the declaration of the struct, so they are parameters, as is the capacity
  the runtime picks when \<^verbatim>\<open>append\<close> must allocate. A nil map is written as
  \<^verbatim>\<open>null\<close>. Strings are taken to be valid UTF-8, which the round trip leaves as
  they are.
\<close>

record go_runtime =
  growslice :: "nat \<Rightarrow> nat \<Rightarrow> nat"
  omitempty_Images :: bool
  omitempty_Files :: bool

datatype 'a json_field = Absent | Null | Array "'a list"

record details_json =
  json_nodes :: "64 word"
  json_images :: "string json_field"
  json_files :: "(string \<rightharpoonup> string) option json_field"

definition marshal_slice :: "bool \<Rightarrow> slice \<Rightarrow> 'a list \<Rightarrow> 'a json_field" where
  "marshal_slice omitempty s xs =
     (if omitempty \<and> xs = [] then Absent
      else if s = NilSlice then Null
      else Array xs)"

definition json_Marshal :: "go_runtime \<Rightarrow> store \<Rightarrow> DeploymentDetails \<Rightarrow> details_json" where
  "json_Marshal rt st dd =
     \<lparr>json_nodes = Nodes_dd dd,
      json_images = marshal_slice (omitempty_Images rt) (Images dd) (images_of st (Images dd)),
      json_files = marshal_slice (omitempty_Files rt) (Files dd) (files_of st (Files dd))\<rparr>"

text \<open>
  \<^verbatim>\<open>json.Unmarshal\<close> into a slice that exists already decodes element \<open>i\<close> of
  the JSON array into slot \<open>i\<close> of the slice: in place, in the backing array the
  slice has, as long as the capacity reaches; beyond it the decoder moves the slice to
  a new array of one and a half times the capacity (4 at least). At the end the length
  is the number of elements, and an empty JSON array gives a new empty slice.
  \<^verbatim>\<open>null\<close> makes the slice nil, a field that is absent leaves it alone.
\<close>

definition decoder_grow :: "'a \<Rightarrow> 'a arrays \<Rightarrow> slice \<Rightarrow> 'a arrays \<times> slice" where
  "decoder_grow z A v =
     (let newcap = (if cap v + cap v div 2 < 4 then 4 else cap v + cap v div 2)
      in (case alloc A (elems A v @ replicate (newcap - len v) z) of
            (A1, a1) \<Rightarrow> (A1, Slice a1 0 (len v) newcap)))"

definition decoder_slot :: "'a \<Rightarrow> 'a arrays \<Rightarrow> slice \<Rightarrow> nat \<Rightarrow> 'a arrays \<times> slice" where
  "decoder_slot z A v i =
     (case (if cap v \<le> i then decoder_grow z A v else (A, v)) of
        (A1, v1) \<Rightarrow> (A1, if len v1 \<le> i then set_len v1 (Suc i) else v1))"

definition decoder_finish :: "'a arrays \<Rightarrow> slice \<Rightarrow> nat \<Rightarrow> 'a arrays \<times> slice" where
  "decoder_finish A v k =
     (let v1 = (if k < len v then set_len v k else v)
      in if k = 0 then (case alloc A [] of (A1, a1) \<Rightarrow> (A1, Slice a1 0 0 0)) else (A, v1))"

fun decode_strings :: "string arrays \<Rightarrow> slice \<Rightarrow> nat \<Rightarrow> string list \<Rightarrow> string arrays \<times> slice" where
  "decode_strings A v i [] = (A, v)"
| "decode_strings A v i (x # xs) =
     (case decoder_slot [] A v i of
        (A1, v1) \<Rightarrow> decode_strings (put A1 v1 i x) v1 (Suc i) xs)"

definition unmarshal_strings :: "string arrays \<Rightarrow> slice \<Rightarrow> string json_field \<Rightarrow> string arrays \<times> slice" where
  "unmarshal_strings A s field =
     (case field of
        Absent \<Rightarrow> (A, s)
      | Null \<Rightarrow> (A, NilSlice)
      | Array xs \<Rightarrow> (case decode_strings A s 0 xs of (A1, v) \<Rightarrow> decoder_finish A1 v (length xs)))"

text \<open>
  An element of \<^verbatim>\<open>[]map[string]string\<close>: \<^verbatim>\<open>null\<close> sets the slot to nil. A JSON
  object is decoded into the map the slot refers to, which keeps the entries it has
  and gets those of the object; a new map is made only when the slot is nil.
\<close>

definition decode_map :: "store \<Rightarrow> slice \<Rightarrow> nat \<Rightarrow> (string \<rightharpoonup> string) option \<Rightarrow> store" where
  "decode_map st v i js =
     (case js of
        None \<Rightarrow> st\<lparr>maprefs_of := put (maprefs_of st) v i None\<rparr>
      | Some m \<Rightarrow>
          (case slot (maprefs_of st) v i None of
             None \<Rightarrow>
               (case new_map st m of
                  (st1, r) \<Rightarrow> st1\<lparr>maprefs_of := put (maprefs_of st1) v i (Some r)\<rparr>)
           | Some r \<Rightarrow> st\<lparr>mapobj := (mapobj st)(r := mapobj st r ++ m)\<rparr>))"

fun decode_maps :: "store \<Rightarrow> slice \<Rightarrow> nat \<Rightarrow> (string \<rightharpoonup> string) option list \<Rightarrow> store \<times> slice" where
  "decode_maps st v i [] = (st, v)"
| "decode_maps st v i (js # rest) =
     (case decoder_slot None (maprefs_of st) v i of
        (M1, v1) \<Rightarrow> decode_maps (decode_map (st\<lparr>maprefs_of := M1\<rparr>) v1 i js) v1 (Suc i) rest)"

definition unmarshal_maps ::
    "store \<Rightarrow> slice \<Rightarrow> (string \<rightharpoonup> string) option json_field \<Rightarrow> store \<times> slice" where
  "unmarshal_maps st s field =
     (case field of
        Absent \<Rightarrow> (st, s)
      | Null \<Rightarrow> (st, NilSlice)
      | Array js \<Rightarrow>
          (case decode_maps st s 0 js of
             (st1, v) \<Rightarrow>
               (case decoder_finish (maprefs_of st1) v (length js) of
                  (M2, v2) \<Rightarrow> (st1\<lparr>maprefs_of := M2\<rparr>, v2))))"

definition json_Unmarshal :: "details_json \<Rightarrow> DeploymentDetails \<Rightarrow> store \<Rightarrow> DeploymentDetails \<times> store" where
  "json_Unmarshal js target st =
     (case unmarshal_strings (strings_of st) (Images target) (json_images js) of
        (S1, images) \<Rightarrow>
          (case unmarshal_maps (st\<lparr>strings_of := S1\<rparr>) (Files target) (json_files js) of
             (st2, files) \<Rightarrow>
               (target\<lparr>Nodes_dd := json_nodes js, Images := images, Files := files\<rparr>, st2)))"

subsection \<open>The testnet\<close>

text \<open>
  \<^verbatim>\<open>LDD\<close> is a pointer: after \<^verbatim>\<open>NewTestNet\<close> to the function's own copy of the
  details it was given, after \<^verbatim>\<open>AddDetails\<close> to the last element of
  \<^verbatim>\<open>Details\<close>.
\<close>

datatype details_pointer = To_details_of_NewTestNet | To_Details_element nat

record TestNet =
  TestNetID :: string
  Servers :: "Server list"
  Nodes :: "Node list"
  NewlyBuiltNodes :: "Node list"
  Clients :: "int \<rightharpoonup> Client"
  BuildState_of :: BuildState
  Details :: "DeploymentDetails list"
  CombinedDetails :: DeploymentDetails
  LDD :: details_pointer

text \<open>
  \<^verbatim>\<open>NewTestNet\<close>. The build state, the servers and the clients come from other
  packages; their answers are given. The first error ends the function.
\<close>

record testnet_world =
  GetBuildStateByID :: "string \<Rightarrow> error + BuildState"
  GetServers :: "error + Server list"
  GetClient :: "int \<Rightarrow> error + Client"

fun open_clients ::
    "testnet_world \<Rightarrow> Server list \<Rightarrow> (int \<rightharpoonup> Client) \<Rightarrow> error + (int \<rightharpoonup> Client)" where
  "open_clients world [] clients = Inr clients"
| "open_clients world (server # servers) clients =
     (case GetClient world (ID server) of
        Inl err \<Rightarrow> Inl err
      | Inr client \<Rightarrow> open_clients world servers (clients(ID server \<mapsto> client)))"

definition NewTestNet :: "testnet_world \<Rightarrow> DeploymentDetails \<Rightarrow> string \<Rightarrow> error + TestNet" where
  "NewTestNet world details buildID =
     (case GetBuildStateByID world buildID of
        Inl err \<Rightarrow> Inl err
      | Inr bs \<Rightarrow>
     (case GetServers world of
        Inl err \<Rightarrow> Inl err
      | Inr servers \<Rightarrow>
     (case open_clients world servers Map.empty of
        Inl err \<Rightarrow> Inl err
      | Inr clients \<Rightarrow>
          Inr \<lparr>TestNetID = buildID, Servers = servers, Nodes = [], NewlyBuiltNodes = [],
               Clients = clients, BuildState_of = bs, Details = [details],
               CombinedDetails = details, LDD = To_details_of_NewTestNet\<rparr>)))"

text \<open>
  \<^verbatim>\<open>AddNode\<close> runs under the write lock of the testnet, so concurrent calls take
  effect one after the other, in some order: a sequence of calls.
\<close>

definition AddNode :: "TestNet \<Rightarrow> Node \<Rightarrow> int \<times> TestNet" where
  "AddNode tn node0 =
     (let node = node0\<lparr>AbsoluteNum := int (length (Nodes tn))\<rparr>;
          tn1 = tn\<lparr>NewlyBuiltNodes := NewlyBuiltNodes tn @ [node]\<rparr>;
          tn2 = tn1\<lparr>Nodes := Nodes tn1 @ [node]\<rparr>
      in (AbsoluteNum node, tn2))"

text \<open>A sequence of \<^verbatim>\<open>AddNode\<close> calls: the numbers returned, and the final testnet.\<close>

fun AddNode_calls :: "TestNet \<Rightarrow> Node list \<Rightarrow> int list \<times> TestNet" where
  "AddNode_calls tn [] = ([], tn)"
| "AddNode_calls tn (n # ns) =
     (case AddNode tn n of (k, tn1) \<Rightarrow>
        (case AddNode_calls tn1 ns of (ks, tn2) \<Rightarrow> (k # ks, tn2)))"

subsection \<open>AddDetails\<close>

text \<open>
  The two padding loops. Files: \<^verbatim>\<open>for i := len(Files); i < oldCD.Nodes; i++\<close>
  appends a new empty map each time. Images: the same loop appends
  \<^verbatim>\<open>Images[0]\<close>, read each time.
\<close>

function pad_Files :: "go_runtime \<Rightarrow> int \<Rightarrow> int \<Rightarrow> store \<Rightarrow> slice \<Rightarrow> store \<times> slice" where
  "pad_Files rt i n st files =
     (if i < n then
        (case new_map st Map.empty of
           (st1, r) \<Rightarrow>
             (case append_go (growslice rt) None (maprefs_of st1) files [Some r] of
                (M2, files2) \<Rightarrow> pad_Files rt (i + 1) n (st1\<lparr>maprefs_of := M2\<rparr>) files2))
      else (st, files))"
  by pat_completeness auto
termination
  by (relation "measure (\<lambda>(rt, i, n, st, files). nat (n - i))") auto

function pad_Images ::
    "go_runtime \<Rightarrow> int \<Rightarrow> int \<Rightarrow> string arrays \<Rightarrow> slice \<Rightarrow> panic + (string arrays \<times> slice)" where
  "pad_Images rt i n A images =
     (if i < n then
        (case index A images 0 of
           Inl p \<Rightarrow> Inl p
         | Inr first \<Rightarrow>
             (case append_go (growslice rt) [] A images [first] of
                (A2, images2) \<Rightarrow> pad_Images rt (i + 1) n A2 images2))
      else Inr (A, images))"
  by pat_completeness auto
termination
  by (relation "measure (\<lambda>(rt, i, n, A, images). nat (n - i))") auto

text \<open>The block \<^verbatim>\<open>/**Handle Files**/\<close>, after \<^verbatim>\<open>Files\<close> was reset to \<^verbatim>\<open>oldCD.Files\<close>.\<close>

definition handle_Files ::
    "go_runtime \<Rightarrow> DeploymentDetails \<Rightarrow> DeploymentDetails \<Rightarrow> store \<Rightarrow> slice \<Rightarrow> panic + (store \<times> slice)" where
  "handle_Files rt oldCD dd st files0 =
     (if Files dd \<noteq> NilSlice \<and> 0 < len (Files dd) then
        (case (if files0 = NilSlice then make_slice None (maprefs_of st) (sint (Nodes_dd oldCD))
               else Inr (maprefs_of st, files0)) of
           Inl p \<Rightarrow> Inl p
         | Inr (M1, files1) \<Rightarrow>
             (case (if int (len files1) < sint (Nodes_dd oldCD)
                    then pad_Files rt (int (len files1)) (sint (Nodes_dd oldCD))
                           (st\<lparr>maprefs_of := M1\<rparr>) files1
                    else (st\<lparr>maprefs_of := M1\<rparr>, files1)) of
                (st2, files2) \<Rightarrow>
                  (case range_append (growslice rt) None 0 (Files dd) (maprefs_of st2) files2 of
                     (M3, files3) \<Rightarrow> Inr (st2\<lparr>maprefs_of := M3\<rparr>, files3))))
      else Inr (st, files0))"

text \<open>
  The block \<^verbatim>\<open>/**Handle Images***/\<close>. It works on the \<^verbatim>\<open>Images\<close> that
  \<^verbatim>\<open>json.Unmarshal\<close> left in \<^verbatim>\<open>CombinedDetails\<close>: unlike \<^verbatim>\<open>Files\<close>, the
  field is not reset to its old value first.
\<close>

definition handle_Images ::
    "go_runtime \<Rightarrow> DeploymentDetails \<Rightarrow> DeploymentDetails \<Rightarrow> string arrays \<Rightarrow> slice \<Rightarrow>
     panic + (string arrays \<times> slice)" where
  "handle_Images rt oldCD dd A images0 =
     (if Images dd \<noteq> NilSlice \<and> 0 < len (Images dd) then
        (case (if images0 = NilSlice then make_slice [] A (sint (Nodes_dd oldCD))
               else Inr (A, images0)) of
           Inl p \<Rightarrow> Inl p
         | Inr (A1, images1) \<Rightarrow>
             (case (if int (len images1) < sint (Nodes_dd oldCD)
                    then pad_Images rt (int (len images1)) (sint (Nodes_dd oldCD)) A1 images1
                    else Inr (A1, images1)) of
                Inl p \<Rightarrow> Inl p
              | Inr (A2, images2) \<Rightarrow>
                  Inr (range_append (growslice rt) [] 0 (Images dd) A2 images2)))
      else Inr (A, images0))"

text \<open>
  \<^verbatim>\<open>AddDetails\<close>, under the write lock. \<open>marshal_err\<close> is the error of
  \<^verbatim>\<open>json.Marshal(dd)\<close>, or none: the fields of \<open>dd\<close> that could make it fail
  are not among the three modelled. The result is the error returned and the testnet
  and store left behind, or a panic. (An error of \<^verbatim>\<open>json.Unmarshal\<close> is only
  logged; on the bytes \<^verbatim>\<open>json.Marshal\<close> has just produced there is none.)
\<close>

definition AddDetails ::
    "go_runtime \<Rightarrow> error option \<Rightarrow> TestNet \<Rightarrow> store \<Rightarrow> DeploymentDetails \<Rightarrow>
     panic + (error option \<times> TestNet \<times> store)" where
  "AddDetails rt marshal_err tn st dd =
     (let tn1 = tn\<lparr>Details := Details tn @ [dd]\<rparr> in
      case marshal_err of
        Some err \<Rightarrow> Inr (Some err, tn1, st)
      | None \<Rightarrow>
          (let tmp = json_Marshal rt st dd;
               tn2 = tn1\<lparr>LDD := To_Details_element (length (Details tn1) - 1)\<rparr>;
               oldCD = CombinedDetails tn2
           in case json_Unmarshal tmp (CombinedDetails tn2) st of
                (cd1, st1) \<Rightarrow>
           (case handle_Files rt oldCD dd st1 (Files oldCD) of
              Inl p \<Rightarrow> Inl p
            | Inr (st2, files) \<Rightarrow>
           (case handle_Images rt oldCD dd (strings_of st2) (Images cd1) of
              Inl p \<Rightarrow> Inl p
            | Inr (S3, images) \<Rightarrow>
                Inr (None,
                     tn2\<lparr>CombinedDetails :=
                            cd1\<lparr>Files := files,
                                Nodes_dd := Nodes_dd oldCD + Nodes_dd dd,
                                Images := images\<rparr>\<rparr>,
                     st2\<lparr>strings_of := S3\<rparr>)))))"

text \<open>
  Modelled from the spec: the declaration of \<^verbatim>\<open>DeploymentDetails\<close> is not among
  the files under study, and the error of \<^verbatim>\<open>json.Marshal(dd)\<close> depends on its
  field types alone. \<^verbatim>\<open>json.Marshal\<close> fails only on a value it cannot encode (a
  channel, a function, a complex number, a NaN or an infinity, a cycle). The spec
  gives the request payload as servers, a node count, images, files from path to
  content, params that are JSON, and the name of the blockchain: every one of them
  can be encoded, so \<^verbatim>\<open>json.Marshal\<close> of a deployment's details has no error.
\<close>

definition json_Marshal_error :: "DeploymentDetails \<Rightarrow> error option" where
  "json_Marshal_error dd = None"

text \<open>
  A sequence of \<^verbatim>\<open>AddDetails\<close> calls, each with the details it adds: the errors
  returned, in order, and the testnet and store after the last call. A panic ends
  the sequence.
\<close>

fun AddDetails_calls ::
    "go_runtime \<Rightarrow> TestNet \<Rightarrow> store \<Rightarrow> DeploymentDetails list \<Rightarrow>
     panic + (error option list \<times> TestNet \<times> store)" where
  "AddDetails_calls rt tn st [] = Inr ([], tn, st)"
| "AddDetails_calls rt tn st (dd # dds) =
     (case AddDetails rt (json_Marshal_error dd) tn st dd of
        Inl p \<Rightarrow> Inl p
      | Inr (err, tn1, st1) \<Rightarrow>
          (case AddDetails_calls rt tn1 st1 dds of
             Inl p \<Rightarrow> Inl p
           | Inr (errs, tn2, st2) \<Rightarrow> Inr (err # errs, tn2, st2)))"

subsection \<open>StoreNodes\<close>

text \<open>
  \<^verbatim>\<open>StoreNodes\<close>. \<open>labels\<close> is \<open>None\<close> for the nil slice. The loop variable
  \<^verbatim>\<open>node\<close> is a copy of the element of \<^verbatim>\<open>NewlyBuiltNodes\<close>: the label is set
  on the copy, the copy is handed to \<^verbatim>\<open>InsertNode\<close>, and the testnet is left as
  it is. \<^verbatim>\<open>labels[i]\<close> panics when \<open>labels\<close> has no element \<open>i\<close>. The answers
  of the database for the call of round \<open>i\<close> are \<open>db i\<close>. The result is the
  error returned, the nodes handed to \<^verbatim>\<open>InsertNode\<close> and the errors logged.
\<close>

fun StoreNodes_range ::
    "(nat \<Rightarrow> db_answers) \<Rightarrow> string list option \<Rightarrow> nat \<Rightarrow> Node list \<Rightarrow> panic + (Node list \<times> error list)" where
  "StoreNodes_range db labels i [] = Inr ([], [])"
| "StoreNodes_range db labels i (node0 # rest) =
     (case (case labels of
              None \<Rightarrow> Inr node0
            | Some ls \<Rightarrow>
                if i < length ls then Inr (node0\<lparr>Label := ls ! i\<rparr>)
                else Inl (Panic ''index out of range'')) of
        Inl p \<Rightarrow> Inl p
      | Inr node \<Rightarrow>
          (case StoreNodes_range db labels (Suc i) rest of
             Inl p \<Rightarrow> Inl p
           | Inr (stored, logged) \<Rightarrow>
               Inr (node # stored,
                    (case snd (fst (InsertNode (db i) node)) of
                       None \<Rightarrow> logged
                     | Some err \<Rightarrow> err # logged))))"

definition StoreNodes ::
    "(nat \<Rightarrow> db_answers) \<Rightarrow> TestNet \<Rightarrow> string list option \<Rightarrow>
     panic + (error option \<times> Node list \<times> error list)" where
  "StoreNodes db tn labels =
     (case StoreNodes_range db labels 0 (NewlyBuiltNodes tn) of
        Inl p \<Rightarrow> Inl p
      | Inr (stored, logged) \<Rightarrow> Inr (None, stored, logged))"

section \<open>Concrete inputs\<close>

text \<open>The inputs at which the theorems below are evaluated.\<close>

definition conf_E4 :: Config where
  "conf_E4 = \<lparr>Verbose = False, NodePrefix = ''whiteblock-node'', DockerOutputFile = ''/output.log''\<rparr>"

definition client_E4 :: Client where
  "client_E4 = \<lparr>host = ''10.0.0.1'', serverID = 1\<rparr>"

definition world_running :: ssh_world where
  "world_running =
     \<lparr>getSession = Inr 7,
      Close_on_nil = Close_panics_at_call,
      GetBuildStateByServerID = (\<lambda>server. \<lparr>Stop = False, GetError = None\<rparr>),
      CombinedOutput = (\<lambda>command. (''ok'', None)),
      FormatError = (\<lambda>out err. err)\<rparr>"



definition node_a :: Node where
  "node_a = \<lparr>Id_node = 0, TestNetId = 1, Server = 1, LocalId = 0, Ip = ''10.0.0.1'',
             AbsoluteNum = 0, Label = []\<rparr>"

definition node_b :: Node where
  "node_b = \<lparr>Id_node = 0, TestNetId = 1, Server = 1, LocalId = 1, Ip = ''10.0.0.2'',
             AbsoluteNum = 0, Label = []\<rparr>"


definition servers_2x2 :: "Server list" where
  "servers_2x2 = [\<lparr>ID = 1, Ips = [''10.0.0.1'', ''10.0.0.2'']\<rparr>,
                  \<lparr>ID = 2, Ips = [''10.0.1.1'', ''10.0.1.2'']\<rparr>]"

text \<open>
  The scenario of two deployments: the first has 2 nodes, the files \<open>[{a: A}]\<close> and
  the images \<open>[img1]\<close>, the second 1 node, the files \<open>[{b: B}]\<close> and the images
  \<open>[img2]\<close>. Each slice has an array of its own, of the capacity of a slice
  literal; the runtime doubles the capacity when \<^verbatim>\<open>append\<close> allocates, and the
  fields carry no \<^verbatim>\<open>omitempty\<close>.
\<close>

definition runtime_doubling :: go_runtime where
  "runtime_doubling =
     \<lparr>growslice = (\<lambda>old need. 2 * old), omitempty_Images = False, omitempty_Files = False\<rparr>"

definition store_two :: store where
  "store_two =
     \<lparr>strings_of = \<lparr>cells = (\<lambda>a. [])(0 := [''img1''], 1 := [''img2'']), limit = 2\<rparr>,
      maprefs_of = \<lparr>cells = (\<lambda>a. [])(0 := [Some 0], 1 := [Some 1]), limit = 2\<rparr>,
      mapobj = (\<lambda>r. Map.empty)(0 := [''a'' \<mapsto> ''A''], 1 := [''b'' \<mapsto> ''B'']),
      map_limit = 2\<rparr>"

definition details_first :: DeploymentDetails where
  "details_first = \<lparr>Nodes_dd = 2, Images = Slice 0 0 1 1, Files = Slice 0 0 1 1\<rparr>"

definition details_second :: DeploymentDetails where
  "details_second = \<lparr>Nodes_dd = 1, Images = Slice 1 0 1 1, Files = Slice 1 0 1 1\<rparr>"

definition world_one_server :: testnet_world where
  "world_one_server =
     \<lparr>GetBuildStateByID = (\<lambda>buildID. Inr \<lparr>Stop = False, GetError = None\<rparr>),
      GetServers = Inr [\<lparr>ID = 1, Ips = [''10.0.0.1'', ''10.0.0.2'', ''10.0.0.3'']\<rparr>],
      GetClient = (\<lambda>server_id. Inr \<lparr>host = ''10.0.0.1'', serverID = server_id\<rparr>)\<rparr>"

definition testnet_first :: TestNet where
  "testnet_first =
     \<lparr>TestNetID = ''build1'',
      Servers = [\<lparr>ID = 1, Ips = [''10.0.0.1'', ''10.0.0.2'', ''10.0.0.3'']\<rparr>],
      Nodes = [], NewlyBuiltNodes = [],
      Clients = [1 \<mapsto> \<lparr>host = ''10.0.0.1'', serverID = 1\<rparr>],
      BuildState_of = \<lparr>Stop = False, GetError = None\<rparr>,
      Details = [details_first],
      CombinedDetails = details_first,
      LDD = To_details_of_NewTestNet\<rparr>"

text \<open>Database answers: every call succeeds, or executing the statement fails.\<close>

definition db_ok :: db_answers where
  "db_ok = \<lparr>Begin_err = None, Prepare_err = None, Exec_err = None, LastInsertId = (1, None)\<rparr>"

definition db_exec_fails :: db_answers where
  "db_exec_fails = \<lparr>Begin_err = None, Prepare_err = None,
                    Exec_err = Some (Error ''UNIQUE constraint failed''), LastInsertId = (0, None)\<rparr>"

definition db_begin_fails :: db_answers where
  "db_begin_fails = \<lparr>Begin_err = Some (Error ''database is locked''), Prepare_err = None,
                     Exec_err = None, LastInsertId = (0, None)\<rparr>"

text \<open>
  Two peers harvested by the init phase of a tendermint build, in a slice that two
  \<^verbatim>\<open>append\<close> calls have grown to length and capacity 2.
\<close>

definition peers_two :: "string arrays" where
  "peers_two = \<lparr>cells = (\<lambda>a. [])(0 := [''idA@10.0.0.1:26656'', ''idB@10.0.0.2:26656'']), limit = 1\<rparr>"

text \<open>The first testnet after one \<^verbatim>\<open>AddNode\<close>: one newly built node.\<close>

definition testnet_one_new :: TestNet where
  "testnet_one_new = snd (AddNode testnet_first node_a)"

text \<open>
  What a call or a sequence of calls of \<^verbatim>\<open>AddDetails\<close> leaves in
  \<^verbatim>\<open>CombinedDetails\<close>, read through the store (nothing after a panic): the error,
  the node count, the files and the images; and the errors, the node count and the
  node counts of \<^verbatim>\<open>Details\<close>.
\<close>

definition combined_view ::
    "panic + (error option \<times> TestNet \<times> store) \<Rightarrow>
     (error option \<times> 64 word \<times> (string \<rightharpoonup> string) option list \<times> string list) option" where
  "combined_view result =
     (case result of
        Inl p \<Rightarrow> None
      | Inr (err, tn, st) \<Rightarrow>
          Some (err, Nodes_dd (CombinedDetails tn),
                files_of st (Files (CombinedDetails tn)),
                images_of st (Images (CombinedDetails tn))))"

definition nodes_view ::
    "panic + (error option list \<times> TestNet \<times> store) \<Rightarrow>
     (error option list \<times> 64 word \<times> 64 word list) option" where
  "nodes_view result =
     (case result of
        Inl p \<Rightarrow> None
      | Inr (errs, tn, st) \<Rightarrow>
          Some (errs, Nodes_dd (CombinedDetails tn), map Nodes_dd (Details tn)))"

section \<open>Results\<close>

subsection \<open>InsertNode\<close>

text \<open>
  C9. \<^verbatim>\<open>InsertNode\<close> has a failure path that returns a nil error: when the
  transaction begins and the statement is prepared but executing the prepared INSERT
  fails with any error \<open>err\<close>, the function returns \<open>(-1, nil)\<close>; the error is
  dropped, and the transaction is never committed.
\<close>

theorem InsertNode_exec_failure_returns_nil:
  "fst (InsertNode (db\<lparr>Begin_err := None, Prepare_err := None, Exec_err := Some err\<rparr>) node)
     = (- 1, None)
   \<and> TxCommit \<notin> set (snd (InsertNode
         (db\<lparr>Begin_err := None, Prepare_err := None, Exec_err := Some err\<rparr>) node))"
  by (simp add: InsertNode_def)

subsection \<open>AddNode\<close>

lemma upt_shift_head: "[k..<k + Suc m] = k # [Suc k..<Suc k + m]"
  by (simp add: upt_conv_Cons del: upt_Suc)

lemma AddNode_step:
  "AddNode tn n =
     (int (length (Nodes tn)),
      tn\<lparr>NewlyBuiltNodes := NewlyBuiltNodes tn @ [n\<lparr>AbsoluteNum := int (length (Nodes tn))\<rparr>],
          Nodes := Nodes tn @ [n\<lparr>AbsoluteNum := int (length (Nodes tn))\<rparr>]\<rparr>)"
  by (simp add: AddNode_def Let_def)

lemma AddNode_calls_fst:
  "fst (AddNode_calls tn ns) = map int [length (Nodes tn)..<length (Nodes tn) + length ns]"
proof (induction ns arbitrary: tn)
  case Nil
  then show ?case by simp
next
  case (Cons n ns)
  let ?tn1 = "snd (AddNode tn n)"
  have l: "length (Nodes ?tn1) = Suc (length (Nodes tn))"
    by (simp add: AddNode_step)
  have "fst (AddNode_calls tn (n # ns)) = int (length (Nodes tn)) # fst (AddNode_calls ?tn1 ns)"
    by (simp add: AddNode_step split_beta)
  also have "\<dots> = int (length (Nodes tn)) # map int [Suc (length (Nodes tn))..<Suc (length (Nodes tn)) + length ns]"
    using Cons[of ?tn1] l by simp
  also have "\<dots> = map int [length (Nodes tn)..<length (Nodes tn) + length (n # ns)]"
    using upt_shift_head[of "length (Nodes tn)" "length ns"] by simp
  finally show ?case .
qed

lemma AddNode_calls_Nodes:
  "map AbsoluteNum (Nodes (snd (AddNode_calls tn ns)))
     = map AbsoluteNum (Nodes tn) @ map int [length (Nodes tn)..<length (Nodes tn) + length ns]"
proof (induction ns arbitrary: tn)
  case Nil
  then show ?case by simp
next
  case (Cons n ns)
  let ?tn1 = "snd (AddNode tn n)"
  have l: "length (Nodes ?tn1) = Suc (length (Nodes tn))"
    by (simp add: AddNode_step)
  have m: "map AbsoluteNum (Nodes ?tn1) = map AbsoluteNum (Nodes tn) @ [int (length (Nodes tn))]"
    by (simp add: AddNode_step)
  have "Nodes (snd (AddNode_calls tn (n # ns))) = Nodes (snd (AddNode_calls ?tn1 ns))"
    by (simp add: AddNode_step split_beta)
  then have "map AbsoluteNum (Nodes (snd (AddNode_calls tn (n # ns))))
      = map AbsoluteNum (Nodes ?tn1) @ map int [Suc (length (Nodes tn))..<Suc (length (Nodes tn)) + length ns]"
    using Cons[of ?tn1] l by simp
  also have "\<dots> = map AbsoluteNum (Nodes tn) @ map int [length (Nodes tn)..<length (Nodes tn) + length (n # ns)]"
    using upt_shift_head[of "length (Nodes tn)" "length ns"] m by simp
  finally show ?case .
qed

lemma AddNode_calls_New:
  "\<exists>added. Nodes (snd (AddNode_calls tn ns)) = Nodes tn @ added
         \<and> NewlyBuiltNodes (snd (AddNode_calls tn ns)) = NewlyBuiltNodes tn @ added
         \<and> length added = length ns"
proof (induction ns arbitrary: tn)
  case Nil
  then show ?case by simp
next
  case (Cons n ns)
  from Cons[of "snd (AddNode tn n)"] obtain added where
    a: "Nodes (snd (AddNode_calls (snd (AddNode tn n)) ns)) = Nodes (snd (AddNode tn n)) @ added"
       "NewlyBuiltNodes (snd (AddNode_calls (snd (AddNode tn n)) ns)) = NewlyBuiltNodes (snd (AddNode tn n)) @ added"
       "length added = length ns" by blast
  show ?case
    apply (rule exI[of _ "n\<lparr>AbsoluteNum := int (length (Nodes tn))\<rparr> # added"])
    using a by (simp add: split_beta AddNode_def Let_def)
qed

text \<open>
  C4. On a testnet whose node list is empty, a sequence of \<^verbatim>\<open>AddNode\<close> calls
  returns the numbers \<open>0, ..., N-1\<close> in order, the nodes of the testnet carry
  exactly these numbers as \<^verbatim>\<open>AbsoluteNum\<close>, no two alike, and the newly built
  nodes are the old ones followed by the nodes added. Each single call, on any
  testnet, sets the node's \<^verbatim>\<open>AbsoluteNum\<close> to the length of the node list before
  the call, appends the node to \<^verbatim>\<open>NewlyBuiltNodes\<close> and to \<^verbatim>\<open>Nodes\<close>, and
  returns that number.
\<close>

theorem AddNode_absoluteNum_prefix:
  "Nodes tn = [] \<Longrightarrow>
     fst (AddNode_calls tn ns) = map int [0..<length ns]
     \<and> map AbsoluteNum (Nodes (snd (AddNode_calls tn ns))) = map int [0..<length ns]
     \<and> distinct (map AbsoluteNum (Nodes (snd (AddNode_calls tn ns))))
     \<and> NewlyBuiltNodes (snd (AddNode_calls tn ns))
         = NewlyBuiltNodes tn @ Nodes (snd (AddNode_calls tn ns))
     \<and> AddNode tn1 n =
         (int (length (Nodes tn1)),
          tn1\<lparr>NewlyBuiltNodes := NewlyBuiltNodes tn1 @ [n\<lparr>AbsoluteNum := int (length (Nodes tn1))\<rparr>],
              Nodes := Nodes tn1 @ [n\<lparr>AbsoluteNum := int (length (Nodes tn1))\<rparr>]\<rparr>)"
proof -
  assume e: "Nodes tn = []"
  have 1: "fst (AddNode_calls tn ns) = map int [0..<length ns]"
    using AddNode_calls_fst[of tn ns] e by simp
  have 2: "map AbsoluteNum (Nodes (snd (AddNode_calls tn ns))) = map int [0..<length ns]"
    using AddNode_calls_Nodes[of tn ns] e by simp
  have 3: "distinct (map AbsoluteNum (Nodes (snd (AddNode_calls tn ns))))"
    unfolding 2 by (simp add: distinct_map inj_on_def)
  have 4: "NewlyBuiltNodes (snd (AddNode_calls tn ns))
         = NewlyBuiltNodes tn @ Nodes (snd (AddNode_calls tn ns))"
    using AddNode_calls_New[of tn ns] e by auto
  have 5: "AddNode tn1 n =
         (int (length (Nodes tn1)),
          tn1\<lparr>NewlyBuiltNodes := NewlyBuiltNodes tn1 @ [n\<lparr>AbsoluteNum := int (length (Nodes tn1))\<rparr>],
              Nodes := Nodes tn1 @ [n\<lparr>AbsoluteNum := int (length (Nodes tn1))\<rparr>]\<rparr>)"
    by (simp add: AddNode_def Let_def)
  from 1 2 3 4 5 show ?thesis by blast
qed

theorem AddNode_absoluteNum_prefix_witness:
  "Nodes testnet_first = []
   \<and> fst (AddNode_calls testnet_first [node_a, node_b]) = [0, 1]
   \<and> map AbsoluteNum (Nodes (snd (AddNode_calls testnet_first [node_a, node_b]))) = [0, 1]
   \<and> map LocalId (NewlyBuiltNodes (snd (AddNode_calls testnet_first [node_a, node_b]))) = [0, 1]"
  using AddNode_absoluteNum_prefix[of testnet_first "[node_a, node_b]" testnet_first node_a]
  by (simp add: testnet_first_def AddNode_def Let_def node_a_def node_b_def)

subsection \<open>CreateConfigs\<close>

lemma range_Ips_eq:
  "range_Ips i ips j node = (map (\<lambda>k. (i, j + k, node + k)) [0..<length ips], node + length ips)"
proof (induction ips arbitrary: j node)
  case Nil
  then show ?case by simp
next
  case (Cons ip ips)
  show ?case
    by (simp add: Cons map_upt_Suc del: upt_Suc)
qed

lemma range_servers_pairs:
  "map (\<lambda>(i, j, k). (i, j)) (fst (range_servers servers i node))
     = concat (map (\<lambda>(i, server). map (Pair i) [0..<length (Ips server)]) (enumerate i servers))"
proof (induction servers arbitrary: i node)
  case Nil
  then show ?case by simp
next
  case (Cons server servers)
  show ?case
    using Cons[of "Suc i" "node + length (Ips server)"]
    by (simp add: range_Ips_eq split_beta comp_def)
qed

lemma range_servers_counter:
  "snd (range_servers servers i node) = node + sum_list (map (\<lambda>server. length (Ips server)) servers)"
  by (induction servers arbitrary: i node) (simp_all add: range_Ips_eq split_beta)

lemma upt_add_map: "map (\<lambda>k. node + k) [0..<n] = [node..<node + n]"
  by (induction n) simp_all

lemma range_servers_numbers:
  "map (\<lambda>(i, j, k). k) (fst (range_servers servers i node))
     = [node..<node + sum_list (map (\<lambda>server. length (Ips server)) servers)]"
proof (induction servers arbitrary: i node)
  case Nil
  then show ?case by simp
next
  case (Cons server servers)
  have "[node..<node + length (Ips server) + sum_list (map (\<lambda>server. length (Ips server)) servers)]
      = [node..<node + length (Ips server)]
        @ [node + length (Ips server)..<node + length (Ips server) + sum_list (map (\<lambda>server. length (Ips server)) servers)]"
    by (metis le_add1 upt_add_eq_append)
  then show ?case
    using Cons[of "Suc i" "node + length (Ips server)"]
    by (simp add: range_Ips_eq split_beta comp_def upt_add_map add.assoc)
qed

lemma sum_list_const: "\<forall>x \<in> set xs. f x = (N::nat) \<Longrightarrow> sum_list (map f xs) = length xs * N"
  by (induction xs) simp_all

lemma node_pairs_from:
  "(i, j) \<in> set (concat (map (\<lambda>(i, server). map (Pair i) [0..<length (Ips server)]) (enumerate k servers)))
     \<Longrightarrow> k \<le> i"
  by (auto simp: in_set_enumerate_eq)

lemma node_pairs_distinct:
  "distinct (concat (map (\<lambda>(i, server). map (Pair i) [0..<length (Ips server)]) (enumerate k servers)))"
proof (induction servers arbitrary: k)
  case Nil
  then show ?case by simp
next
  case (Cons server servers)
  define rest where
    "rest = concat (map (\<lambda>(i, server). map (Pair i) [0..<length (Ips server)]) (enumerate (Suc k) servers))"
  have later: "Suc k \<le> i" if "(i, j) \<in> set rest" for i j
    using that unfolding rest_def by (rule node_pairs_from)
  have here: "distinct (map (Pair k) [0..<length (Ips server)])"
    by (simp add: distinct_map inj_on_def)
  have apart: "set (map (Pair k) [0..<length (Ips server)]) \<inter> set rest = {}"
  proof (rule equals0I)
    fix p
    assume "p \<in> set (map (Pair k) [0..<length (Ips server)]) \<inter> set rest"
    then obtain j where "p = (k, j)" and "p \<in> set rest" by auto
    then have "(k, j) \<in> set rest" by simp
    from later[OF this] show False by simp
  qed
  have "distinct rest"
    unfolding rest_def by (rule Cons)
  with here apart have "distinct (map (Pair k) [0..<length (Ips server)] @ rest)"
    by simp
  then show ?case
    by (simp add: rest_def)
qed

text \<open>
  C6. \<^verbatim>\<open>CreateConfigs\<close> calls \<^verbatim>\<open>fn\<close> once for every pair of a server index
  and an index into that server's \<^verbatim>\<open>Ips\<close>: the pairs of the calls are the pairs
  in lexicographic order, each once. The absolute node numbers handed over are
  \<open>0, 1, 2, ...\<close> in that order, so they are distinct and cover all numbers below
  the number of nodes, which is the sum of the lengths of the \<^verbatim>\<open>Ips\<close>; with
  \<open>N\<close> nodes on each of \<open>S\<close> servers that is \<open>S * N\<close> calls.
\<close>

theorem CreateConfigs_calls_fn_once_per_node:
  "map (\<lambda>(i, j, k). (i, j)) (CreateConfigs_fn_calls servers)
      = concat (map (\<lambda>(i, server). map (Pair i) [0..<length (Ips server)]) (enumerate 0 servers))
   \<and> map (\<lambda>(i, j, k). k) (CreateConfigs_fn_calls servers) = [0..<length (CreateConfigs_fn_calls servers)]
   \<and> distinct (map (\<lambda>(i, j, k). (i, j)) (CreateConfigs_fn_calls servers))
   \<and> distinct (map (\<lambda>(i, j, k). k) (CreateConfigs_fn_calls servers))
   \<and> length (CreateConfigs_fn_calls servers) = sum_list (map (\<lambda>server. length (Ips server)) servers)
   \<and> ((\<forall>server \<in> set servers. length (Ips server) = N)
        \<longrightarrow> length (CreateConfigs_fn_calls servers) = length servers * N)"
proof -
  let ?calls = "CreateConfigs_fn_calls servers"
  let ?total = "sum_list (map (\<lambda>server. length (Ips server)) servers)"
  have pairs: "map (\<lambda>(i, j, k). (i, j)) ?calls
      = concat (map (\<lambda>(i, server). map (Pair i) [0..<length (Ips server)]) (enumerate 0 servers))"
    unfolding CreateConfigs_fn_calls_def by (rule range_servers_pairs)
  have nums: "map (\<lambda>(i, j, k). k) ?calls = [0..<?total]"
    unfolding CreateConfigs_fn_calls_def using range_servers_numbers[of servers 0 0] by simp
  have len: "length ?calls = ?total"
    using arg_cong[OF nums, of length] by simp
  have d2: "distinct (map (\<lambda>(i, j, k). k) ?calls)"
    unfolding nums by simp
  have d1: "distinct (map (\<lambda>(i, j, k). (i, j)) ?calls)"
    unfolding pairs by (rule node_pairs_distinct)
  have uniform: "(\<forall>server \<in> set servers. length (Ips server) = N) \<longrightarrow> length ?calls = length servers * N"
    unfolding len using sum_list_const[of servers "\<lambda>server. length (Ips server)" N] by blast
  from pairs nums len d1 d2 uniform show ?thesis by simp
qed

theorem CreateConfigs_calls_fn_once_per_node_witness:
  "list_all (\<lambda>server. length (Ips server) = 2) servers_2x2
   \<and> CreateConfigs_fn_calls servers_2x2 = [(0, 0, 0), (0, 1, 1), (1, 0, 2), (1, 1, 3)]
   \<and> length (CreateConfigs_fn_calls servers_2x2) = length servers_2x2 * 2"
  using CreateConfigs_calls_fn_once_per_node[of servers_2x2 2]
  by (simp add: servers_2x2_def CreateConfigs_fn_calls_def)

subsection \<open>The ssh client\<close>

lemma count_E4_quotes: "strings_Count (''echo 'hi'' @ [CHR 0x27]) [CHR 0x27] = 2"
  by simp
lemma count_E4_escaped: "strings_Count (''echo 'hi'' @ [CHR 0x27]) [CHR 0x5C, CHR 0x27] = 0"
  by simp

text \<open>
  C3. Whenever the number of \<^verbatim>\<open>'\<close> in the command differs from the number of
  \<^verbatim>\<open>\'\<close>, \<^verbatim>\<open>DockerExecdLog\<close> panics, and nothing has happened before the
  panic: no session is opened, no command is run, nothing is stored. The command
  \<^verbatim>\<open>echo 'hi'\<close> has two single quotes and no escaped one, and the call with it on
  node 0 panics in this way.
\<close>

theorem DockerExecdLog_unescaped_quote_panics:
  "(strings_Count command [CHR 0x27] \<noteq> strings_Count command [CHR 0x5C, CHR 0x27] \<longrightarrow>
      DockerExecdLog conf world sshClient node command
        = (Inl (Panic ''DockerExecdLog commands cannot contain unescaped ' characters''), []))
   \<and> strings_Count (''echo 'hi'' @ [CHR 0x27]) [CHR 0x27] = 2
   \<and> strings_Count (''echo 'hi'' @ [CHR 0x27]) [CHR 0x5C, CHR 0x27] = 0
   \<and> DockerExecdLog conf world sshClient 0 (''echo 'hi'' @ [CHR 0x27])
        = (Inl (Panic ''DockerExecdLog commands cannot contain unescaped ' characters''), [])"
proof -
  have general: "DockerExecdLog conf world sshClient nd cmd
        = (Inl (Panic ''DockerExecdLog commands cannot contain unescaped ' characters''), [])"
    if "strings_Count cmd [CHR 0x27] \<noteq> strings_Count cmd [CHR 0x5C, CHR 0x27]" for nd cmd
    using that by (simp add: DockerExecdLog_def logSanitizeAndStore_def)
  have differ: "strings_Count (''echo 'hi'' @ [CHR 0x27]) [CHR 0x27]
        \<noteq> strings_Count (''echo 'hi'' @ [CHR 0x27]) [CHR 0x5C, CHR 0x27]"
    unfolding count_E4_quotes count_E4_escaped by simp
  show ?thesis
    using general[of command node] general[OF differ, of 0] count_E4_quotes count_E4_escaped
    by blast
qed

theorem DockerExecdLog_unescaped_quote_panics_witness:
  "strings_Count ''it's'' [CHR 0x27] \<noteq> strings_Count ''it's'' [CHR 0x5C, CHR 0x27]
   \<and> DockerExecdLog conf_E4 world_running client_E4 3 ''it's''
        = (Inl (Panic ''DockerExecdLog commands cannot contain unescaped ' characters''), [])
   \<and> fst (DockerExecdLog conf_E4 world_running client_E4 3 (''it'' @ [CHR 0x5C, CHR 0x27] @ ''s''))
        = Inr None"
  using DockerExecdLog_unescaped_quote_panics[of "''it's''" conf_E4 world_running client_E4 3]
  by (simp add: DockerExecdLog_def logSanitizeAndStore_def Run_def deferred_Close_def
        world_running_def conf_E4_def client_E4_def)



text \<open>
  The remaining case: no session was obtained and \<^verbatim>\<open>Close\<close> does not return on
  the nil session. Then \<^verbatim>\<open>Run\<close> panics, stopped or not, and runs no remote
  command.
\<close>

lemma Run_nil_session_panics:
  "getSession world = Inl err \<Longrightarrow> Close_on_nil world \<noteq> Close_returns \<Longrightarrow>
     fst (Run conf world sshClient command) = Inl nil_dereference
     \<and> (\<forall>s c. RemoteCommand s c \<notin> set (snd (Run conf world sshClient command)))"
  by (cases "Close_on_nil world") (auto simp: Run_def deferred_Close_def Let_def)

subsection \<open>The handlers of the network emulation\<close>

text \<open>
  When the backend fails, \<^verbatim>\<open>handleNet\<close> answers with status 500 and the error
  message, and nothing else.
\<close>

lemma handleNet_backend_failure:
  "handleNet (Inr netConf) (Inr nodes) (Some (Error msg))
     = \<lparr>status = Some 500, body = msg @ [CHR 0x0A]\<rparr>"
  by (simp add: handleNet_def http_Error_def Write_body_def WriteHeader_def new_response_def)

text \<open>
  \<^verbatim>\<open>handleNetAll\<close> has no \<^verbatim>\<open>return\<close> after the \<^verbatim>\<open>http.Error\<close> that
  answers a failure of \<^verbatim>\<open>netem.ApplyToAll\<close>, and goes on to
  \<^verbatim>\<open>w.Write([]byte("Success"))\<close>: the header with status 500 is written already
  and stays, and \<^verbatim>\<open>Success\<close> is appended to the body behind the message and
  its newline.
\<close>

lemma handleNetAll_backend_failure_appends_Success:
  "handleNetAll (Inr netConf) (Inr nodes) (Some (Error msg))
     = \<lparr>status = Some 500, body = msg @ [CHR 0x0A] @ ''Success''\<rparr>"
  by (simp add: handleNetAll_def http_Error_def Write_body_def WriteHeader_def new_response_def)




subsection \<open>The start phase of a tendermint build\<close>

text \<open>
  A closure that finds the peer list untouched (the array as long as the capacity
  says) gets the peers without entry \<open>i\<close>.
\<close>

lemma persistent_peers_untouched:
  assumes "i < n" and "n \<le> c" and "length (cells A a) = c"
  shows "\<exists>A1. persistent_peers grow A (Slice a 0 n c) (int i)
           = Inr (A1, take i (take n (cells A a)) @ drop (Suc i) (take n (cells A a)))"
proof (cases "Suc i = n")
  case True
  with assms show ?thesis
    by (simp add: persistent_peers_def slice_to_def slice_from_def append_go_def)
next
  case False
  with assms have "Suc i < n" by simp
  with assms show ?thesis
    apply (simp add: persistent_peers_def slice_to_def slice_from_def append_go_def nat_add_distrib)
    apply (auto simp: take_drop min_def)
    done
qed

text \<open>
  On the untouched peer list the closure of a node computes the peers without the
  node's own entry: so it is when node 1 starts before node 0.
\<close>

lemma start_fan_out_reverse_order:
  "start_fan_out grow peers_two (Slice 0 0 2 2) [1, 0]
     = Inr [(1, [''idA@10.0.0.1:26656'']), (0, [''idB@10.0.0.2:26656''])]"
  by (simp add: persistent_peers_def slice_to_def slice_from_def append_go_def peers_two_def)

text \<open>
  C2. The code at the input where the claim fails. With the two harvested peers
  \<open>idA\<close> (node 0) and \<open>idB\<close> (node 1), the closures running in the order 0, 1:
  \<^verbatim>\<open>append(peers[:0], peers[1:]...)\<close> writes \<open>idB\<close> into slot 0 of the array that
  \<^verbatim>\<open>peers\<close> itself points to, so node 1 then reads \<^verbatim>\<open>peers[:1]\<close> as \<open>idB\<close>:
  node 1 is started with itself as its only persistent peer, and without \<open>idA\<close>.
\<close>

theorem start_fan_out_second_node_gets_itself:
  "start_fan_out grow peers_two (Slice 0 0 2 2) [0, 1]
     = Inr [(0, [''idB@10.0.0.2:26656'']), (1, [''idB@10.0.0.2:26656''])]"
  by (simp add: persistent_peers_def slice_to_def slice_from_def append_go_def peers_two_def)

subsection \<open>StoreNodes\<close>

lemma StoreNodes_range_nil:
  "\<exists>logged. StoreNodes_range db None i nodes = Inr (nodes, logged)"
proof (induction nodes arbitrary: i)
  case Nil
  then show ?case by simp
next
  case (Cons node nodes)
  from Cons[of "Suc i"] obtain logged where "StoreNodes_range db None (Suc i) nodes = Inr (nodes, logged)"
    by blast
  then show ?case by simp
qed

lemma StoreNodes_range_labels:
  "i + length nodes \<le> length ls \<Longrightarrow>
   \<exists>logged. StoreNodes_range db (Some ls) i nodes
     = Inr (map (\<lambda>(k, node). node\<lparr>Label := ls ! k\<rparr>) (enumerate i nodes), logged)"
proof (induction nodes arbitrary: i)
  case Nil
  then show ?case by simp
next
  case (Cons node nodes)
  then have "Suc i + length nodes \<le> length ls" by simp
  from Cons.IH[OF this] obtain logged where
    "StoreNodes_range db (Some ls) (Suc i) nodes
       = Inr (map (\<lambda>(k, node). node\<lparr>Label := ls ! k\<rparr>) (enumerate (Suc i) nodes), logged)"
    by blast
  moreover have "i < length ls" using Cons.prems by simp
  ultimately show ?case by simp
qed

text \<open>
  C10, as amended. When \<open>labels\<close> is nil, or has at least as many entries as there
  are newly built nodes, \<^verbatim>\<open>StoreNodes\<close> returns the nil error, whatever the
  database answers: the errors of \<^verbatim>\<open>InsertNode\<close> are logged and go no further.
  One node is handed to \<^verbatim>\<open>InsertNode\<close> for each newly built node; when \<open>labels\<close>
  is nil these are the newly built nodes as they are, labels included, and otherwise
  node \<open>i\<close> carries \<open>labels[i]\<close>.
\<close>

theorem StoreNodes_nil_error_when_labels_suffice:
  "labels = None \<or> (\<exists>ls. labels = Some ls \<and> length (NewlyBuiltNodes tn) \<le> length ls) \<Longrightarrow>
     \<exists>stored logged.
        StoreNodes db tn labels = Inr (None, stored, logged)
        \<and> length stored = length (NewlyBuiltNodes tn)
        \<and> (labels = None \<longrightarrow> stored = NewlyBuiltNodes tn)
        \<and> (\<forall>ls. labels = Some ls \<longrightarrow>
              stored = map (\<lambda>(k, node). node\<lparr>Label := ls ! k\<rparr>) (enumerate 0 (NewlyBuiltNodes tn)))"
proof (cases labels)
  case None
  obtain logged where "StoreNodes_range db None 0 (NewlyBuiltNodes tn) = Inr (NewlyBuiltNodes tn, logged)"
    using StoreNodes_range_nil by blast
  with None show ?thesis by (simp add: StoreNodes_def)
next
  case (Some ls)
  assume "labels = None \<or> (\<exists>ls. labels = Some ls \<and> length (NewlyBuiltNodes tn) \<le> length ls)"
  with Some have "0 + length (NewlyBuiltNodes tn) \<le> length ls" by simp
  from StoreNodes_range_labels[OF this] obtain logged where
    "StoreNodes_range db (Some ls) 0 (NewlyBuiltNodes tn)
       = Inr (map (\<lambda>(k, node). node\<lparr>Label := ls ! k\<rparr>) (enumerate 0 (NewlyBuiltNodes tn)), logged)"
    by blast
  with Some show ?thesis by (simp add: StoreNodes_def)
qed

theorem StoreNodes_nil_error_when_labels_suffice_witness:
  "NewlyBuiltNodes testnet_one_new = [node_a]
   \<and> length (NewlyBuiltNodes testnet_one_new) \<le> length [''validator'', ''spare'']
   \<and> StoreNodes (\<lambda>i. db_begin_fails) testnet_one_new None
       = Inr (None, NewlyBuiltNodes testnet_one_new, [Error ''database is locked''])
   \<and> StoreNodes (\<lambda>i. db_exec_fails) testnet_one_new (Some [''validator'', ''spare''])
       = Inr (None, [node_a\<lparr>Label := ''validator''\<rparr>], [])"
  using StoreNodes_nil_error_when_labels_suffice[of None testnet_one_new "\<lambda>i. db_begin_fails"]
    StoreNodes_nil_error_when_labels_suffice[of "Some [''validator'', ''spare'']" testnet_one_new
      "\<lambda>i. db_exec_fails"]
  by (simp add: StoreNodes_def testnet_one_new_def AddNode_def Let_def testnet_first_def
        InsertNode_def db_begin_fails_def db_exec_fails_def node_a_def)

text \<open>
  Counterexample to C10 as stated: with one newly built node and a \<open>labels\<close> that is not
  nil but empty, \<^verbatim>\<open>labels[0]\<close> panics and \<^verbatim>\<open>StoreNodes\<close> returns nothing.
\<close>

theorem StoreNodes_short_labels_panics:
  "NewlyBuiltNodes testnet_one_new = [node_a]
   \<and> StoreNodes (\<lambda>i. db_ok) testnet_one_new (Some []) = Inl (Panic ''index out of range'')"
  by (simp add: StoreNodes_def testnet_one_new_def AddNode_def Let_def testnet_first_def node_a_def)

subsection \<open>AddDetails\<close>

lemmas AddDetails_unfold =
  AddDetails_def handle_Files_def handle_Images_def json_Unmarshal_def json_Marshal_def
  unmarshal_strings_def unmarshal_maps_def marshal_slice_def decoder_slot_def decoder_grow_def
  decoder_finish_def decode_map_def new_map_def append_go_def alloc_def make_slice_def index_def
  images_of_def files_of_def Let_def pad_Files.simps pad_Images.simps range_append.simps

text \<open>
  C1. The code at the input of the claim, where the claim fails. The testnet is
  created with 2 nodes, files \<open>[{a: A}]\<close> and images \<open>[img1]\<close>; then
  \<^verbatim>\<open>AddDetails\<close> is called with 1 node, files \<open>[{b: B}]\<close> and images
  \<open>[img2]\<close>. Whatever the runtime's growth of slices and the tags of the fields,
  the call returns nil and leaves in \<^verbatim>\<open>CombinedDetails\<close> the node count 3, the
  images \<open>[img2, img2, img2]\<close> and the files \<open>[{a: A, b: B}, {}, {b: B}]\<close>:
  \<^verbatim>\<open>json.Unmarshal\<close> has replaced the images by those of the new deployment
  before they are padded and extended, and has decoded the new deployment's first
  file map into the map that the old first element refers to.
\<close>

theorem AddDetails_second_deployment_overwrites_images:
  "combined_view (AddDetails rt None testnet_first store_two details_second)
     = Some (None, 3,
             [Some [''a'' \<mapsto> ''A'', ''b'' \<mapsto> ''B''], Some Map.empty, Some [''b'' \<mapsto> ''B'']],
             [''img2'', ''img2'', ''img2''])"
  by (simp add: AddDetails_unfold combined_view_def testnet_first_def store_two_def
        details_first_def details_second_def)

text \<open>
  A call in which \<^verbatim>\<open>json.Marshal\<close> succeeds returns nil, appends the details to
  \<^verbatim>\<open>Details\<close> and adds their node count to the combined one.
\<close>

lemma AddDetails_step:
  assumes "AddDetails rt None tn st dd = Inr (err, tn1, st1)"
  shows "err = None"
    and "Details tn1 = Details tn @ [dd]"
    and "Nodes_dd (CombinedDetails tn1) = Nodes_dd (CombinedDetails tn) + Nodes_dd dd"
  using assms
  by (auto simp: AddDetails_def Let_def split: option.splits prod.splits sum.splits)

text \<open>
  The path that the code has for an error of \<^verbatim>\<open>json.Marshal\<close>, which no details
  of the fields above take: the details are appended, and the function returns
  before \<^verbatim>\<open>LDD\<close> is moved and before anything is merged.
\<close>

lemma AddDetails_marshal_error_path:
  "AddDetails rt (Some err) tn st dd = Inr (Some err, tn\<lparr>Details := Details tn @ [dd]\<rparr>, st)"
  by (simp add: AddDetails_def)

lemma NewTestNet_details:
  "NewTestNet world details buildID = Inr tn \<Longrightarrow>
     Details tn = [details] \<and> CombinedDetails tn = details"
  by (auto simp: NewTestNet_def split: sum.splits)

lemma AddDetails_calls_sum:
  "AddDetails_calls rt tn st dds = Inr (errs, tn1, st1) \<Longrightarrow>
   Nodes_dd (CombinedDetails tn) = sum_list (map Nodes_dd (Details tn)) \<Longrightarrow>
     Nodes_dd (CombinedDetails tn1) = sum_list (map Nodes_dd (Details tn1))
     \<and> Details tn1 = Details tn @ dds
     \<and> errs = replicate (length dds) None"
proof (induction dds arbitrary: tn st errs)
  case Nil
  then show ?case by simp
next
  case (Cons dd dds)
  from Cons.prems(1) obtain err tn2 st2 errs2 where
    first: "AddDetails rt None tn st dd = Inr (err, tn2, st2)" and
    rest: "AddDetails_calls rt tn2 st2 dds = Inr (errs2, tn1, st1)" and
    errs: "errs = err # errs2"
    by (auto simp: json_Marshal_error_def split: sum.splits prod.splits)
  from AddDetails_step[OF first] Cons.prems(2)
  have nil: "err = None"
    and inv2: "Nodes_dd (CombinedDetails tn2) = sum_list (map Nodes_dd (Details tn2))"
    and det2: "Details tn2 = Details tn @ [dd]"
    by simp_all
  from Cons.IH[OF rest inv2] det2 nil errs show ?case by simp
qed

text \<open>When a sequence of calls runs through, so does every sequence it begins with.\<close>

lemma AddDetails_calls_prefix:
  "AddDetails_calls rt tn st (dds @ later) = Inr result \<Longrightarrow>
     \<exists>errs tn1 st1. AddDetails_calls rt tn st dds = Inr (errs, tn1, st1)"
proof (induction dds arbitrary: tn st result)
  case Nil
  then show ?case by simp
next
  case (Cons dd dds)
  from Cons.prems obtain err tn2 st2 result2 where
    first: "AddDetails rt (json_Marshal_error dd) tn st dd = Inr (err, tn2, st2)" and
    rest: "AddDetails_calls rt tn2 st2 (dds @ later) = Inr result2"
    by (auto split: sum.splits prod.splits)
  from Cons.IH[OF rest] obtain errs tn1 st1 where
    "AddDetails_calls rt tn2 st2 dds = Inr (errs, tn1, st1)" by blast
  with first show ?case by simp
qed

text \<open>
  C5. The testnet \<^verbatim>\<open>NewTestNet\<close> returns has a combined node count equal to the
  sum of the node counts of its \<^verbatim>\<open>Details\<close>. From a testnet where the two are
  equal, after each call of a sequence of \<^verbatim>\<open>AddDetails\<close> calls, that is after
  the first \<open>k\<close> calls for every \<open>k\<close>, they are equal again; every call has
  returned nil, and \<^verbatim>\<open>Details\<close> has grown by the details added, in order.
  (The sum is that of Go's 64-bit integers. A call that panics does not come to an
  end: the sequence is one whose calls all return.)
\<close>

theorem AddDetails_nodes_sum_of_details:
  "(NewTestNet world details buildID = Inr tn0 \<longrightarrow>
      Nodes_dd (CombinedDetails tn0) = sum_list (map Nodes_dd (Details tn0)))
   \<and> (Nodes_dd (CombinedDetails tn) = sum_list (map Nodes_dd (Details tn))
        \<and> AddDetails_calls rt tn st dds = Inr (errs, tn1, st1)
        \<and> k \<le> length dds \<longrightarrow>
      (\<exists>errs_k tn_k st_k.
          AddDetails_calls rt tn st (take k dds) = Inr (errs_k, tn_k, st_k)
          \<and> errs_k = replicate k None
          \<and> Nodes_dd (CombinedDetails tn_k) = sum_list (map Nodes_dd (Details tn_k))
          \<and> Details tn_k = Details tn @ take k dds)
      \<and> errs = replicate (length dds) None
      \<and> Nodes_dd (CombinedDetails tn1) = sum_list (map Nodes_dd (Details tn1))
      \<and> Details tn1 = Details tn @ dds)"
proof -
  have created: "NewTestNet world details buildID = Inr tn0 \<longrightarrow>
      Nodes_dd (CombinedDetails tn0) = sum_list (map Nodes_dd (Details tn0))"
    using NewTestNet_details[of world details buildID tn0] by auto
  have calls: "(\<exists>errs_k tn_k st_k.
          AddDetails_calls rt tn st (take k dds) = Inr (errs_k, tn_k, st_k)
          \<and> errs_k = replicate k None
          \<and> Nodes_dd (CombinedDetails tn_k) = sum_list (map Nodes_dd (Details tn_k))
          \<and> Details tn_k = Details tn @ take k dds)
      \<and> errs = replicate (length dds) None
      \<and> Nodes_dd (CombinedDetails tn1) = sum_list (map Nodes_dd (Details tn1))
      \<and> Details tn1 = Details tn @ dds"
    if inv: "Nodes_dd (CombinedDetails tn) = sum_list (map Nodes_dd (Details tn))"
      and run: "AddDetails_calls rt tn st dds = Inr (errs, tn1, st1)"
      and k: "k \<le> length dds"
  proof -
    from run have "AddDetails_calls rt tn st (take k dds @ drop k dds) = Inr (errs, tn1, st1)"
      by simp
    from AddDetails_calls_prefix[OF this] obtain errs_k tn_k st_k where
      run_k: "AddDetails_calls rt tn st (take k dds) = Inr (errs_k, tn_k, st_k)" by blast
    from AddDetails_calls_sum[OF run_k inv] k
    have "errs_k = replicate k None"
      and "Nodes_dd (CombinedDetails tn_k) = sum_list (map Nodes_dd (Details tn_k))"
      and "Details tn_k = Details tn @ take k dds"
      by (simp_all add: min_def)
    with run_k AddDetails_calls_sum[OF run inv] show ?thesis by blast
  qed
  from created calls show ?thesis by blast
qed

theorem AddDetails_nodes_sum_of_details_witness:
  "NewTestNet world_one_server details_first ''build1'' = Inr testnet_first
   \<and> Nodes_dd (CombinedDetails testnet_first) = sum_list (map Nodes_dd (Details testnet_first))
   \<and> nodes_view (AddDetails_calls runtime_doubling testnet_first store_two
                    [details_second, details_second])
       = Some ([None, None], 4, [2, 1, 1])
   \<and> nodes_view (AddDetails_calls runtime_doubling testnet_first store_two
                    (take 1 [details_second, details_second]))
       = Some ([None], 3, [2, 1])
   \<and> (4 :: 64 word) = sum_list [2, 1, 1] \<and> (3 :: 64 word) = sum_list [2, 1]"
  using AddDetails_nodes_sum_of_details[of world_one_server details_first "''build1''"
      testnet_first testnet_first runtime_doubling store_two
      "[details_second, details_second]" _ _ _ 1]
  by (simp add: AddDetails_unfold nodes_view_def NewTestNet_def world_one_server_def
        json_Marshal_error_def runtime_doubling_def testnet_first_def store_two_def
        details_first_def details_second_def)

end
